theory Spec2Isabelle
  imports Main
begin

section \<open>Python values\<close>

text \<open>
  The program of \<^verbatim>\<open>main.py\<close> is dynamically typed: every argument of
  \<^verbatim>\<open>chat_completion\<close>, every value of the request payload and every part of a decoded
  JSON body is one of Python's JSON-shaped values. A \<^verbatim>\<open>str\<close> is modelled by its UTF-8
  bytes. The program never computes with a \<^verbatim>\<open>float\<close> (it stores, tests for truth and
  prints it), so a float is carried by its \<^verbatim>\<open>repr\<close>, the shortest decimal text that
  reads back as the same float (\<^verbatim>\<open>0.2\<close>, \<^verbatim>\<open>0.0\<close>, \<^verbatim>\<open>-0.0\<close>, \<^verbatim>\<open>nan\<close>).
  A \<^verbatim>\<open>dict\<close> with \<^verbatim>\<open>str\<close> keys is an association list in insertion order.
\<close>

datatype pyfloat = PyFloat string

datatype pyval =
    PNone
  | PBool bool
  | PInt int
  | PFloat pyfloat
  | PStr string
  | PList "pyval list"
  | PDict "(string \<times> pyval) list"

text \<open>The response object of the HTTP library: \<^verbatim>\<open>response.status_code\<close> and
  \<^verbatim>\<open>response.text\<close>, which the program reads, and \<^verbatim>\<open>response.reason\<close> and
  \<^verbatim>\<open>response.url\<close>, which go into the message of an HTTP error.\<close>

record response =
  status_code :: int
  body_text :: string
  reason :: string
  url :: string

text \<open>
  The exceptions (all subclasses of \<^verbatim>\<open>Exception\<close>) that the program's operations and
  its libraries raise. \<^verbatim>\<open>RequestException\<close> stands for every instance of
  \<^verbatim>\<open>requests.exceptions.RequestException\<close> (connection errors, timeouts and HTTP
  errors are subclasses); it carries \<^verbatim>\<open>str(e)\<close> and the attribute \<^verbatim>\<open>e.response\<close>.
  A \<^verbatim>\<open>KeyError\<close> carries the missing key; the others carry their message.
\<close>

datatype exn =
    KeyError pyval
  | IndexError string
  | TypeError string
  | AttributeError string
  | RequestException string "response option"
  | OtherException string

text \<open>
  What the network calls of the \<^verbatim>\<open>try\<close> block do: \<^verbatim>\<open>requests.post\<close> raises or
  returns a response; for a response, \<^verbatim>\<open>json()\<close> raises or returns the decoded body.
\<close>

datatype transport =
    PostRaised exn
  | PostReturned response "exn + pyval"

text \<open>
  The world outside the program: the HTTP endpoint (reached through \<^verbatim>\<open>requests.post\<close>
  with a URL, headers and a JSON payload), the file system (opening a path for writing and
  writing a text either succeeds or raises), and the two functions of Python's runtime that
  the program calls on arbitrary data: \<^verbatim>\<open>repr\<close> of a \<^verbatim>\<open>str\<close> and \<^verbatim>\<open>json.dumps\<close>
  with its \<^verbatim>\<open>indent\<close> argument.
\<close>

record world =
  post :: "string \<Rightarrow> (string \<times> string) list \<Rightarrow> pyval \<Rightarrow> transport"
  write_file :: "string \<Rightarrow> string \<Rightarrow> exn option"
  repr_str :: "string \<Rightarrow> string"
  json_dumps :: "nat option \<Rightarrow> pyval \<Rightarrow> string"

subsection \<open>Built-in operations\<close>

definition digit_char :: "nat \<Rightarrow> char" where
  "digit_char d = ''0123456789'' ! d"

fun str_nat :: "nat \<Rightarrow> string" where
  "str_nat n = (if n < 10 then [digit_char n] else str_nat (n div 10) @ [digit_char (n mod 10)])"

declare str_nat.simps [simp del]

definition str_int :: "int \<Rightarrow> string" where
  "str_int i = (if i < 0 then ''-'' @ str_nat (nat (- i)) else str_nat (nat i))"

text \<open>\<^verbatim>\<open>sep.join(parts)\<close> on a list of \<^verbatim>\<open>str\<close>.\<close>

fun join :: "string \<Rightarrow> string list \<Rightarrow> string" where
  "join sep [] = []"
| "join sep [x] = x"
| "join sep (x # y # ys) = x @ sep @ join sep (y # ys)"

text \<open>\<^verbatim>\<open>repr(v)\<close>. For every value but a \<^verbatim>\<open>str\<close>, \<^verbatim>\<open>str(v)\<close> is the same text.\<close>

fun py_repr :: "world \<Rightarrow> pyval \<Rightarrow> string" where
  "py_repr w PNone = ''None''"
| "py_repr w (PBool b) = (if b then ''True'' else ''False'')"
| "py_repr w (PInt i) = str_int i"
| "py_repr w (PFloat (PyFloat r)) = r"
| "py_repr w (PStr s) = repr_str w s"
| "py_repr w (PList xs) = ''['' @ join '', '' (map (py_repr w) xs) @ '']''"
| "py_repr w (PDict kvs) =
     ''{'' @ join '', '' (map (\<lambda>kv. repr_str w (fst kv) @ '': '' @ py_repr w (snd kv)) kvs) @ ''}''"

text \<open>\<^verbatim>\<open>str(v)\<close>, which is what an f-string field \<^verbatim>\<open>{v}\<close> inserts.\<close>

definition py_str :: "world \<Rightarrow> pyval \<Rightarrow> string" where
  "py_str w v = (case v of PStr s \<Rightarrow> s | _ \<Rightarrow> py_repr w v)"

text \<open>\<^verbatim>\<open>str(e)\<close> of an exception.\<close>

fun exn_str :: "world \<Rightarrow> exn \<Rightarrow> string" where
  "exn_str w (KeyError k) = py_repr w k"
| "exn_str w (IndexError m) = m"
| "exn_str w (TypeError m) = m"
| "exn_str w (AttributeError m) = m"
| "exn_str w (RequestException m r) = m"
| "exn_str w (OtherException m) = m"

text \<open>Truth value testing: \<^verbatim>\<open>None\<close>, \<^verbatim>\<open>False\<close>, zero and empty containers are false.\<close>

fun py_truthy :: "pyval \<Rightarrow> bool" where
  "py_truthy PNone = False"
| "py_truthy (PBool b) = b"
| "py_truthy (PInt i) = (i \<noteq> 0)"
| "py_truthy (PFloat (PyFloat r)) = (r \<noteq> ''0.0'' \<and> r \<noteq> ''-0.0'')"
| "py_truthy (PStr s) = (s \<noteq> [])"
| "py_truthy (PList xs) = (xs \<noteq> [])"
| "py_truthy (PDict kvs) = (kvs \<noteq> [])"

text \<open>The name of a value's type, as Python's error messages print it.\<close>

fun type_name :: "pyval \<Rightarrow> string" where
  "type_name PNone = ''NoneType''"
| "type_name (PBool b) = ''bool''"
| "type_name (PInt i) = ''int''"
| "type_name (PFloat f) = ''float''"
| "type_name (PStr s) = ''str''"
| "type_name (PList xs) = ''list''"
| "type_name (PDict kvs) = ''dict''"

text \<open>\<^verbatim>\<open>d[k] = v\<close> on a dict: an existing key keeps its place, a new key goes last.\<close>

fun dict_set :: "(string \<times> pyval) list \<Rightarrow> string \<Rightarrow> pyval \<Rightarrow> (string \<times> pyval) list" where
  "dict_set [] k v = [(k, v)]"
| "dict_set ((k', v') # d) k v = (if k' = k then (k, v) # d else (k', v') # dict_set d k v)"

text \<open>The code points of a \<^verbatim>\<open>str\<close>: a UTF-8 continuation byte (\<^verbatim>\<open>10xxxxxx\<close>) belongs to
  the code point before it.\<close>

definition is_continuation :: "char \<Rightarrow> bool" where
  "is_continuation c = ((of_char c :: nat) div 64 = 2)"

function py_chars :: "string \<Rightarrow> string list" where
  "py_chars [] = []"
| "py_chars (c # cs) = (c # takeWhile is_continuation cs) # py_chars (dropWhile is_continuation cs)"
  by pat_completeness auto
termination
  by (relation "measure length") (auto simp: length_dropWhile_le less_Suc_eq_le)

text \<open>\<^verbatim>\<open>needle in haystack\<close> on two \<^verbatim>\<open>str\<close>: the substring test.\<close>

fun is_substring :: "string \<Rightarrow> string \<Rightarrow> bool" where
  "is_substring needle [] = (needle = [])"
| "is_substring needle (c # cs) =
     (take (length needle) (c # cs) = needle \<or> is_substring needle cs)"

text \<open>\<^verbatim>\<open>key in v\<close> for a \<^verbatim>\<open>str\<close> key: key membership on a dict, element membership on
  a list, the substring test on a \<^verbatim>\<open>str\<close>, a \<^verbatim>\<open>TypeError\<close> on everything else.\<close>

fun py_contains :: "pyval \<Rightarrow> string \<Rightarrow> exn + bool" where
  "py_contains (PDict kvs) k = Inr (k \<in> set (map fst kvs))"
| "py_contains (PList xs) k = Inr (PStr k \<in> set xs)"
| "py_contains (PStr s) k = Inr (is_substring k s)"
| "py_contains v k = Inl (TypeError (''argument of type '' @ [CHR 0x27] @ type_name v @ [CHR 0x27] @ '' is not iterable''))"

text \<open>\<^verbatim>\<open>v[key]\<close> for a \<^verbatim>\<open>str\<close> key.\<close>

fun getitem_str :: "pyval \<Rightarrow> string \<Rightarrow> exn + pyval" where
  "getitem_str (PDict kvs) k =
     (case map_of kvs k of Some v \<Rightarrow> Inr v | None \<Rightarrow> Inl (KeyError (PStr k)))"
| "getitem_str (PList xs) k = Inl (TypeError ''list indices must be integers or slices, not str'')"
| "getitem_str (PStr s) k = Inl (TypeError ''string indices must be integers'')"
| "getitem_str v k = Inl (TypeError ([CHR 0x27] @ type_name v @ [CHR 0x27] @ '' object is not subscriptable''))"

text \<open>\<^verbatim>\<open>v[i]\<close> for an \<^verbatim>\<open>int\<close> index: a negative index counts from the end; a dict with
  \<^verbatim>\<open>str\<close> keys has no \<^verbatim>\<open>int\<close> key.\<close>

definition list_index :: "'a list \<Rightarrow> int \<Rightarrow> 'a option" where
  "list_index xs i =
     (if 0 \<le> i \<and> i < int (length xs) then Some (xs ! nat i)
      else if i < 0 \<and> - i \<le> int (length xs) then Some (xs ! nat (int (length xs) + i))
      else None)"

fun getitem_int :: "pyval \<Rightarrow> int \<Rightarrow> exn + pyval" where
  "getitem_int (PDict kvs) i = Inl (KeyError (PInt i))"
| "getitem_int (PList xs) i =
     (case list_index xs i of Some v \<Rightarrow> Inr v | None \<Rightarrow> Inl (IndexError ''list index out of range''))"
| "getitem_int (PStr s) i =
     (case list_index (py_chars s) i of Some c \<Rightarrow> Inr (PStr c)
      | None \<Rightarrow> Inl (IndexError ''string index out of range''))"
| "getitem_int v i = Inl (TypeError ([CHR 0x27] @ type_name v @ [CHR 0x27] @ '' object is not subscriptable''))"

text \<open>\<^verbatim>\<open>v.get(key)\<close>: a method of dicts only; a missing key gives \<^verbatim>\<open>None\<close>.\<close>

fun py_get :: "pyval \<Rightarrow> string \<Rightarrow> exn + pyval" where
  "py_get (PDict kvs) k = Inr (case map_of kvs k of Some v \<Rightarrow> v | None \<Rightarrow> PNone)"
| "py_get v k = Inl (AttributeError ([CHR 0x27] @ type_name v @ [CHR 0x27] @ '' object has no attribute '' @ [CHR 0x27] @ ''get'' @ [CHR 0x27]))"

text \<open>Iteration (\<^verbatim>\<open>for x in v\<close>, \<^verbatim>\<open>enumerate(v, 1)\<close>): the elements of a list, the keys of
  a dict, the code points of a \<^verbatim>\<open>str\<close>; a \<^verbatim>\<open>TypeError\<close> on everything else.\<close>

fun py_iter :: "pyval \<Rightarrow> exn + pyval list" where
  "py_iter (PList xs) = Inr xs"
| "py_iter (PDict kvs) = Inr (map (\<lambda>kv. PStr (fst kv)) kvs)"
| "py_iter (PStr s) = Inr (map PStr (py_chars s))"
| "py_iter v = Inl (TypeError ([CHR 0x27] @ type_name v @ [CHR 0x27] @ '' object is not iterable''))"


section \<open>The client\<close>

text \<open>\<^verbatim>\<open>PerplexityClient.__init__\<close>.\<close>

record client =
  api_key :: string
  base_url :: string
  headers :: "(string \<times> string) list"

definition PerplexityClient :: "string \<Rightarrow> client" where
  "PerplexityClient key =
     \<lparr>api_key = key,
      base_url = ''https://api.perplexity.ai'',
      headers = [(''Authorization'', ''Bearer '' @ key), (''Content-Type'', ''application/json'')]\<rparr>"

text \<open>The parameters of \<^verbatim>\<open>chat_completion\<close>. Python checks no type hint, so each holds
  any value.\<close>

record cc_args =
  messages :: pyval
  model :: pyval
  max_tokens :: pyval
  temperature :: pyval
  top_p :: pyval
  return_citations :: pyval
  search_domain_filter :: pyval
  return_images :: pyval
  return_related_questions :: pyval
  search_recency_filter :: pyval
  top_k :: pyval
  stream :: pyval
  presence_penalty :: pyval
  frequency_penalty :: pyval

text \<open>Binding a call \<^verbatim>\<open>chat_completion(messages, **kwargs)\<close>: a keyword that is not
  passed takes the default of the signature.\<close>

definition kwarg :: "(string \<times> pyval) list \<Rightarrow> string \<Rightarrow> pyval \<Rightarrow> pyval" where
  "kwarg kwargs name dflt = (case map_of kwargs name of Some v \<Rightarrow> v | None \<Rightarrow> dflt)"

definition bind_args :: "pyval \<Rightarrow> (string \<times> pyval) list \<Rightarrow> cc_args" where
  "bind_args msgs kwargs =
     \<lparr>messages = msgs,
      model = kwarg kwargs ''model'' (PStr ''sonar''),
      max_tokens = kwarg kwargs ''max_tokens'' PNone,
      temperature = kwarg kwargs ''temperature'' (PFloat (PyFloat ''0.2'')),
      top_p = kwarg kwargs ''top_p'' (PFloat (PyFloat ''0.9'')),
      return_citations = kwarg kwargs ''return_citations'' (PBool True),
      search_domain_filter = kwarg kwargs ''search_domain_filter'' PNone,
      return_images = kwarg kwargs ''return_images'' (PBool False),
      return_related_questions = kwarg kwargs ''return_related_questions'' (PBool False),
      search_recency_filter = kwarg kwargs ''search_recency_filter'' PNone,
      top_k = kwarg kwargs ''top_k'' (PInt 0),
      stream = kwarg kwargs ''stream'' (PBool False),
      presence_penalty = kwarg kwargs ''presence_penalty'' (PInt 0),
      frequency_penalty = kwarg kwargs ''frequency_penalty'' (PInt 1)\<rparr>"

text \<open>The payload of \<^verbatim>\<open>chat_completion\<close> before the comprehension: the dict literal and
  the two conditional entries.\<close>

definition payload_entries :: "cc_args \<Rightarrow> (string \<times> pyval) list" where
  "payload_entries a =
     (let payload =
            [(''model'', model a),
             (''messages'', messages a),
             (''max_tokens'', max_tokens a),
             (''temperature'', temperature a),
             (''top_p'', top_p a),
             (''return_citations'', return_citations a),
             (''return_images'', return_images a),
             (''return_related_questions'', return_related_questions a),
             (''top_k'', top_k a),
             (''stream'', stream a),
             (''presence_penalty'', presence_penalty a),
             (''frequency_penalty'', frequency_penalty a)];
          payload = (if py_truthy (search_domain_filter a)
                     then dict_set payload ''search_domain_filter'' (search_domain_filter a)
                     else payload);
          payload = (if py_truthy (search_recency_filter a)
                     then dict_set payload ''search_recency_filter'' (search_recency_filter a)
                     else payload)
      in payload)"

text \<open>The payload that is sent: the comprehension keeps the entries whose value
  \<^verbatim>\<open>is not None\<close>.\<close>

definition build_payload :: "cc_args \<Rightarrow> (string \<times> pyval) list" where
  "build_payload a = filter (\<lambda>kv. snd kv \<noteq> PNone) (payload_entries a)"

text \<open>
  \<^verbatim>\<open>Response.raise_for_status()\<close>, as the \<^verbatim>\<open>requests\<close> library documents and
  implements it: for a status from 400 to 499 and from 500 to 599 it raises an
  \<^verbatim>\<open>HTTPError\<close> (a \<^verbatim>\<open>RequestException\<close>) that carries the response, with the message
  below; for every other status it returns.
\<close>

definition http_error_msg :: "response \<Rightarrow> string" where
  "http_error_msg r =
     (if 400 \<le> status_code r \<and> status_code r < 500
      then str_int (status_code r) @ '' Client Error: '' @ reason r @ '' for url: '' @ url r
      else if 500 \<le> status_code r \<and> status_code r < 600
      then str_int (status_code r) @ '' Server Error: '' @ reason r @ '' for url: '' @ url r
      else [])"

definition raise_for_status :: "response \<Rightarrow> exn option" where
  "raise_for_status r =
     (if 400 \<le> status_code r \<and> status_code r < 600
      then Some (RequestException (http_error_msg r) (Some r))
      else None)"

text \<open>The \<^verbatim>\<open>try\<close> block: the first of the three calls that raises ends it.\<close>

definition try_block :: "transport \<Rightarrow> exn + pyval" where
  "try_block t =
     (case t of
        PostRaised e \<Rightarrow> Inl e
      | PostReturned r decoded \<Rightarrow>
          (case raise_for_status r of Some e \<Rightarrow> Inl e | None \<Rightarrow> decoded))"

text \<open>The handler's dict: \<^verbatim>\<open>getattr(e.response, 'status_code', None)\<close> and
  \<^verbatim>\<open>hasattr(e.response, 'text')\<close> find the attribute on a response and not on
  \<^verbatim>\<open>None\<close>.\<close>

definition error_detail :: "string \<Rightarrow> response option \<Rightarrow> pyval" where
  "error_detail msg resp =
     (let d = [(''error'', PStr msg),
               (''status_code'', (case resp of Some r \<Rightarrow> PInt (status_code r) | None \<Rightarrow> PNone))];
          d = (case resp of Some r \<Rightarrow> dict_set d ''response_text'' (PStr (body_text r)) | None \<Rightarrow> d)
      in PDict d)"

text \<open>\<^verbatim>\<open>except requests.exceptions.RequestException as e\<close>: the class test of the
  handler, and the attribute \<^verbatim>\<open>e.response\<close> that the handler reads.\<close>

fun is_request_exception :: "exn \<Rightarrow> bool" where
  "is_request_exception (RequestException msg resp) = True"
| "is_request_exception e = False"

fun exn_response :: "exn \<Rightarrow> response option" where
  "exn_response (RequestException msg resp) = resp"
| "exn_response e = None"

text \<open>\<^verbatim>\<open>chat_completion\<close>: \<^verbatim>\<open>Inr\<close> is the value returned, \<^verbatim>\<open>Inl\<close> an exception that
  leaves the method. Only a \<^verbatim>\<open>RequestException\<close> is handled.\<close>

definition chat_completion :: "world \<Rightarrow> client \<Rightarrow> cc_args \<Rightarrow> exn + pyval" where
  "chat_completion w self a =
     (let url = base_url self @ ''/chat/completions'';
          payload = build_payload a
      in case try_block (post w url (headers self) (PDict payload)) of
           Inr v \<Rightarrow> Inr v
         | Inl e \<Rightarrow>
             if is_request_exception e then Inr (error_detail (exn_str w e) (exn_response e))
             else Inl e)"

definition ask :: "world \<Rightarrow> client \<Rightarrow> string \<Rightarrow> (string \<times> pyval) list \<Rightarrow> exn + pyval" where
  "ask w self q kwargs =
     (let msgs = PList [PDict [(''role'', PStr ''user''), (''content'', PStr q)]]
      in chat_completion w self (bind_args msgs kwargs))"


section \<open>The command line\<close>

text \<open>
  A command line that \<^verbatim>\<open>argparse\<close> accepts, with the value of the environment variable
  \<^verbatim>\<open>PERPLEXITY_API_KEY\<close>: for every option, whether (and with which converted value) it
  was given.
\<close>

record cli =
  question :: string
  env_api_key :: "string option"
  api_key_option :: "string option"
  model_option :: "string option"
  max_tokens_option :: "int option"
  temperature_option :: "pyfloat option"
  citations_flag :: bool
  no_citations_flag :: bool
  images_flag :: bool
  related_questions_flag :: bool
  domain_filter_option :: "string list option"
  recency_option :: "string option"
  json_flag :: bool
  pretty_flag :: bool
  save_option :: "string option"

text \<open>The namespace \<^verbatim>\<open>args\<close> that \<^verbatim>\<open>parser.parse_args()\<close> returns.\<close>

record namespace =
  args_question :: string
  args_api_key :: "string option"
  args_model :: string
  args_max_tokens :: "int option"
  args_temperature :: pyfloat
  args_citations :: bool
  args_no_citations :: bool
  args_images :: bool
  args_related_questions :: bool
  args_domain_filter :: "string list option"
  args_recency :: "string option"
  args_json :: bool
  args_pretty :: bool
  args_save :: "string option"

text \<open>An option with \<^verbatim>\<open>action="store_true"\<close> stores \<^verbatim>\<open>True\<close> when the flag is given and
  keeps its default otherwise; an option with a value stores the value given, and its
  default (\<^verbatim>\<open>None\<close> when it declares none) otherwise.\<close>

definition store_true :: "bool \<Rightarrow> bool \<Rightarrow> bool" where
  "store_true dflt given = (if given then True else dflt)"

definition store :: "'a \<Rightarrow> 'a option \<Rightarrow> 'a" where
  "store dflt given = (case given of Some v \<Rightarrow> v | None \<Rightarrow> dflt)"

definition parse_args :: "cli \<Rightarrow> namespace" where
  "parse_args c =
     \<lparr>args_question = question c,
      args_api_key = (case api_key_option c of Some key \<Rightarrow> Some key | None \<Rightarrow> env_api_key c),
      args_model = store ''sonar'' (model_option c),
      args_max_tokens = max_tokens_option c,
      args_temperature = store (PyFloat ''0.2'') (temperature_option c),
      args_citations = store_true True (citations_flag c),
      args_no_citations = store_true False (no_citations_flag c),
      args_images = store_true False (images_flag c),
      args_related_questions = store_true False (related_questions_flag c),
      args_domain_filter = domain_filter_option c,
      args_recency = recency_option c,
      args_json = store_true False (json_flag c),
      args_pretty = store_true True (pretty_flag c),
      args_save = save_option c\<rparr>"

text \<open>The dict \<^verbatim>\<open>kwargs\<close> of \<^verbatim>\<open>main\<close>: five entries always, three when the option's
  value is true (not \<^verbatim>\<open>None\<close>, not zero, not empty).\<close>

definition main_kwargs :: "namespace \<Rightarrow> (string \<times> pyval) list" where
  "main_kwargs args =
     (let kwargs =
            [(''model'', PStr (args_model args)),
             (''temperature'', PFloat (args_temperature args)),
             (''return_citations'', PBool (args_citations args \<and> \<not> args_no_citations args)),
             (''return_images'', PBool (args_images args)),
             (''return_related_questions'', PBool (args_related_questions args))];
          kwargs = (case args_max_tokens args of
                      Some n \<Rightarrow> if n \<noteq> 0 then dict_set kwargs ''max_tokens'' (PInt n) else kwargs
                    | None \<Rightarrow> kwargs);
          kwargs = (case args_domain_filter args of
                      Some ds \<Rightarrow> if ds \<noteq> [] then dict_set kwargs ''search_domain_filter'' (PList (map PStr ds))
                                 else kwargs
                    | None \<Rightarrow> kwargs);
          kwargs = (case args_recency args of
                      Some r \<Rightarrow> if r \<noteq> [] then dict_set kwargs ''search_recency_filter'' (PStr r) else kwargs
                    | None \<Rightarrow> kwargs)
      in kwargs)"

section \<open>Rendering and reporting\<close>

text \<open>What a run of \<^verbatim>\<open>main\<close> does to the outside, in order: each \<^verbatim>\<open>print\<close> is one event
  with the text printed (\<^verbatim>\<open>print\<close> itself is taken to succeed), a file written is one
  event with its path and content.\<close>

datatype event =
    Stdout string
  | Stderr string
  | FileWritten string string

text \<open>How a piece of the program ends: with a value, with an exception that nothing
  caught, or with \<^verbatim>\<open>sys.exit(n)\<close>.\<close>

datatype 'a result =
    Value 'a
  | Raised exn
  | SysExit int

text \<open>The exit status of the process: 0 when \<^verbatim>\<open>main\<close> returns, the argument of
  \<^verbatim>\<open>sys.exit\<close>, and 1 after the traceback of an uncaught exception.\<close>

fun exit_status :: "'a result \<Rightarrow> int" where
  "exit_status (Value v) = 0"
| "exit_status (Raised e) = 1"
| "exit_status (SysExit n) = n"

definition and_then :: "exn + 'a \<Rightarrow> ('a \<Rightarrow> exn + 'b) \<Rightarrow> exn + 'b" where
  "and_then r f = (case r of Inl e \<Rightarrow> Inl e | Inr x \<Rightarrow> f x)"

text \<open>The bullet of a related question, byte for byte as the source file has it.\<close>

definition bullet :: string where
  "bullet = [CHR 0xC3, CHR 0xA2, CHR 0xE2, CHR 0x82, CHR 0xAC, CHR 0xC2, CHR 0xA2]"

text \<open>The lines that \<^verbatim>\<open>if args.citations and response.get("citations")\<close> appends.\<close>

definition citations_part :: "world \<Rightarrow> namespace \<Rightarrow> pyval \<Rightarrow> exn + string list" where
  "citations_part w args response =
     (if args_citations args then
        and_then (py_get response ''citations'') (\<lambda>found.
          if py_truthy found then
            and_then (getitem_str response ''citations'') (\<lambda>citations.
            and_then (py_iter citations) (\<lambda>xs.
              Inr (''\<newline>Citations:'' #
                   map (\<lambda>ix. str_int (int (fst ix)) @ ''. '' @ py_str w (snd ix)) (enumerate 1 xs))))
          else Inr [])
      else Inr [])"

text \<open>The lines that \<^verbatim>\<open>if args.related_questions and response.get("related_questions")\<close>
  appends.\<close>

definition related_part :: "world \<Rightarrow> namespace \<Rightarrow> pyval \<Rightarrow> exn + string list" where
  "related_part w args response =
     (if args_related_questions args then
        and_then (py_get response ''related_questions'') (\<lambda>found.
          if py_truthy found then
            and_then (getitem_str response ''related_questions'') (\<lambda>questions.
            and_then (py_iter questions) (\<lambda>xs.
              Inr (''\<newline>Related Questions:'' # map (\<lambda>x. bullet @ '' '' @ py_str w x) xs)))
          else Inr [])
      else Inr [])"

text \<open>\<^verbatim>\<open>"\n".join(output_parts)\<close>: every part after the first is an f-string or a
  literal, so only the content can fail to be a \<^verbatim>\<open>str\<close>.\<close>

definition join_parts :: "pyval \<Rightarrow> string list \<Rightarrow> exn + string" where
  "join_parts content rest =
     (case content of
        PStr c \<Rightarrow> Inr (join ''\<newline>'' (c # rest))
      | _ \<Rightarrow> Inl (TypeError (''sequence item 0: expected str instance, '' @ type_name content @ '' found'')))"

text \<open>The body of the \<^verbatim>\<open>try\<close> of the text mode.\<close>

definition text_output :: "world \<Rightarrow> namespace \<Rightarrow> pyval \<Rightarrow> exn + string" where
  "text_output w args response =
     and_then (getitem_str response ''choices'') (\<lambda>choices.
     and_then (getitem_int choices 0) (\<lambda>choice.
     and_then (getitem_str choice ''message'') (\<lambda>message.
     and_then (getitem_str message ''content'') (\<lambda>content.
     and_then (citations_part w args response) (\<lambda>cs.
     and_then (related_part w args response) (\<lambda>rs.
     join_parts content (cs @ rs)))))))"

text \<open>\<^verbatim>\<open>except (KeyError, IndexError)\<close>.\<close>

fun caught_in_text_mode :: "exn \<Rightarrow> bool" where
  "caught_in_text_mode (KeyError k) = True"
| "caught_in_text_mode (IndexError m) = True"
| "caught_in_text_mode e = False"

text \<open>"Prepare output": the JSON mode, or the text mode with its handler.\<close>

definition prepare_output :: "world \<Rightarrow> namespace \<Rightarrow> pyval \<Rightarrow> event list \<times> string result" where
  "prepare_output w args response =
     (if args_json args then
        ([], Value (json_dumps w (if args_pretty args then Some 2 else None) response))
      else
        (case text_output w args response of
           Inr output \<Rightarrow> ([], Value output)
         | Inl e \<Rightarrow>
             if caught_in_text_mode e then
               ([Stderr (''Error parsing response: '' @ exn_str w e),
                 Stderr (json_dumps w (Some 2) response)], SysExit 1)
             else ([], Raised e)))"

text \<open>"Save to file if requested": \<^verbatim>\<open>except Exception\<close> catches whatever the write
  raises.\<close>

definition save_step :: "world \<Rightarrow> namespace \<Rightarrow> string \<Rightarrow> event list" where
  "save_step w args output =
     (case args_save args of
        None \<Rightarrow> []
      | Some path \<Rightarrow>
          if path = [] then []
          else (case write_file w path output of
                  None \<Rightarrow> [FileWritten path output, Stderr (''\<newline>Response saved to: '' @ path)]
                | Some e \<Rightarrow> [Stderr (''Error saving file: '' @ exn_str w e)]))"

text \<open>One of the two optional lines of the failure report.\<close>

definition optional_line :: "world \<Rightarrow> pyval \<Rightarrow> string \<Rightarrow> string \<Rightarrow> exn + event list" where
  "optional_line w response key label =
     and_then (py_contains response key) (\<lambda>present.
       if present then
         and_then (getitem_str response key) (\<lambda>v. Inr [Stderr (label @ py_str w v)])
       else Inr [])"

text \<open>The branch of \<^verbatim>\<open>if "error" in response\<close>.\<close>

definition report_failure :: "world \<Rightarrow> pyval \<Rightarrow> event list \<times> unit result" where
  "report_failure w response =
     (case getitem_str response ''error'' of
        Inl e \<Rightarrow> ([], Raised e)
      | Inr err \<Rightarrow>
          (let line1 = [Stderr (''Error: '' @ py_str w err)] in
           case optional_line w response ''status_code'' ''Status Code: '' of
             Inl e \<Rightarrow> (line1, Raised e)
           | Inr line2 \<Rightarrow>
               (case optional_line w response ''response_text'' ''Response: '' of
                  Inl e \<Rightarrow> (line1 @ line2, Raised e)
                | Inr line3 \<Rightarrow> (line1 @ line2 @ line3, SysExit 1))))"

text \<open>\<^verbatim>\<open>main\<close> from "Prepare output" on: the output is printed, then saved.\<close>

definition render_and_display :: "world \<Rightarrow> namespace \<Rightarrow> pyval \<Rightarrow> event list \<times> unit result" where
  "render_and_display w args response =
     (case prepare_output w args response of
        (evs, Value output) \<Rightarrow> (evs @ [Stdout output] @ save_step w args output, Value ())
      | (evs, Raised e) \<Rightarrow> (evs, Raised e)
      | (evs, SysExit n) \<Rightarrow> (evs, SysExit n))"

text \<open>\<^verbatim>\<open>main\<close> from the response on: \<^verbatim>\<open>if "error" in response\<close> decides between the
  failure report and the rendering.\<close>

definition consume :: "world \<Rightarrow> namespace \<Rightarrow> pyval \<Rightarrow> event list \<times> unit result" where
  "consume w args response =
     (case py_contains response ''error'' of
        Inl e \<Rightarrow> ([], Raised e)
      | Inr failure \<Rightarrow>
          if failure then report_failure w response
          else render_and_display w args response)"

definition missing_key_report :: "event list" where
  "missing_key_report =
     [Stderr ''Error: Perplexity API key is required!'',
      Stderr ''Either set PERPLEXITY_API_KEY environment variable or use --api-key'']"

definition main :: "world \<Rightarrow> cli \<Rightarrow> event list \<times> unit result" where
  "main w c =
     (let args = parse_args c in
      case args_api_key args of
        None \<Rightarrow> (missing_key_report, SysExit 1)
      | Some key \<Rightarrow>
          if key = [] then (missing_key_report, SysExit 1)
          else
            (let client = PerplexityClient key;
                 kwargs = main_kwargs args
             in case ask w client (args_question args) kwargs of
                  Inl e \<Rightarrow> ([], Raised e)
                | Inr response \<Rightarrow> consume w args response))"

definition stdout_of :: "event list \<Rightarrow> string list" where
  "stdout_of evs = concat (map (\<lambda>ev. case ev of Stdout s \<Rightarrow> [s] | _ \<Rightarrow> []) evs)"

definition stderr_of :: "event list \<Rightarrow> string list" where
  "stderr_of evs = concat (map (\<lambda>ev. case ev of Stderr s \<Rightarrow> [s] | _ \<Rightarrow> []) evs)"


section \<open>Example runs\<close>

text \<open>
  Worlds and command lines for the concrete runs below. In \<open>fixed_world t written\<close> the
  endpoint answers every request with \<open>t\<close> and every file write ends as \<open>written\<close>;
  its \<^verbatim>\<open>repr\<close> puts a \<^verbatim>\<open>str\<close> between single quotes and its \<^verbatim>\<open>json.dumps\<close> returns a
  fixed text. No statement about all worlds depends on them.
\<close>

definition fixed_world :: "transport \<Rightarrow> exn option \<Rightarrow> world" where
  "fixed_world t written =
     \<lparr>post = (\<lambda>url hdrs payload. t),
      write_file = (\<lambda>path content. written),
      repr_str = (\<lambda>s. [CHR 0x27] @ s @ [CHR 0x27]),
      json_dumps = (\<lambda>indent v. ''<json>'')\<rparr>"

definition ok_response :: "pyval \<Rightarrow> transport" where
  "ok_response body =
     PostReturned \<lparr>status_code = 200, body_text = [], reason = ''OK'',
                    url = ''https://api.perplexity.ai/chat/completions''\<rparr> (Inr body)"

definition plain_cli :: cli where
  "plain_cli =
     \<lparr>question = ''What is machine learning?'',
      env_api_key = Some ''secret'',
      api_key_option = None,
      model_option = None,
      max_tokens_option = None,
      temperature_option = None,
      citations_flag = False,
      no_citations_flag = False,
      images_flag = False,
      related_questions_flag = False,
      domain_filter_option = None,
      recency_option = None,
      json_flag = False,
      pretty_flag = False,
      save_option = None\<rparr>"

definition saving_cli :: cli where
  "saving_cli = plain_cli\<lparr>save_option := Some ''answer.txt''\<rparr>"

definition hello_body :: pyval where
  "hello_body =
     PDict [(''choices'', PList [PDict [(''message'', PDict [(''content'', PStr ''hello'')])]]),
            (''citations'', PList [PStr ''a'', PStr ''b''])]"


definition null_message_body :: pyval where
  "null_message_body = PDict [(''choices'', PList [PDict [(''message'', PNone)]])]"

definition null_content_body :: pyval where
  "null_content_body =
     PDict [(''choices'', PList [PDict [(''message'', PDict [(''content'', PNone)])]])]"

definition denied :: response where
  "denied =
     \<lparr>status_code = 401, body_text = ''denied'', reason = ''Unauthorized'',
      url = ''https://api.perplexity.ai/chat/completions''\<rparr>"

definition unauthorized :: transport where
  "unauthorized = PostReturned denied (Inl (OtherException ''not reached''))"

definition not_modified :: transport where
  "not_modified =
     PostReturned \<lparr>status_code = 304, body_text = ''{}'', reason = ''Not Modified'',
                    url = ''https://api.perplexity.ai/chat/completions''\<rparr> (Inr (PDict []))"

definition other_failure :: transport where
  "other_failure = PostRaised (OtherException ''not a RequestException'')"

definition unreachable :: transport where
  "unreachable = PostRaised (RequestException ''Connection refused'' None)"

section \<open>Properties of the request payload\<close>

lemma map_of_dict_set: "map_of (dict_set d k v) k' = (if k' = k then Some v else map_of d k')"
  by (induction d k v rule: dict_set.induct) auto

lemma keys_dict_set:
  "map fst (dict_set d k v) = (if k \<in> set (map fst d) then map fst d else map fst d @ [k])"
  by (induction d k v rule: dict_set.induct) auto

lemma map_of_without_none:
  assumes "distinct (map fst d)"
  shows "map_of (filter (\<lambda>kv. snd kv \<noteq> PNone) d) k
           = (if map_of d k = Some PNone then None else map_of d k)"
  using assms
proof (induction d)
  case Nil
  show ?case by simp
next
  case (Cons entry d)
  have later: "map_of d (fst entry) = None"
    using Cons.prems by (simp add: map_of_eq_None_iff)
  have "distinct (map fst d)"
    using Cons.prems by simp
  then have ih: "map_of (filter (\<lambda>kv. snd kv \<noteq> PNone) d) k
                   = (if map_of d k = Some PNone then None else map_of d k)"
    by (rule Cons.IH)
  show ?case
    using ih later by (cases entry) auto
qed

lemma key_absent_iff: "k \<notin> fst ` set xs \<longleftrightarrow> map_of xs k = None"
  by (simp add: map_of_eq_None_iff)

lemma distinct_payload_entries: "distinct (map fst (payload_entries a))"
  by (simp add: payload_entries_def Let_def keys_dict_set)

lemma payload_lookup:
  "map_of (build_payload a) k =
     (case map_of (payload_entries a) k of
        None \<Rightarrow> None
      | Some v \<Rightarrow> if v \<noteq> PNone then Some v else None)"
  unfolding build_payload_def
  by (simp add: map_of_without_none [OF distinct_payload_entries] split: option.split)

lemmas payload_simps = payload_lookup payload_entries_def Let_def map_of_dict_set

text \<open>
  Claim C2. An option of \<^verbatim>\<open>chat_completion\<close> that is unset (\<^verbatim>\<open>None\<close>: no token limit, no
  domain filter, no recency filter) has no key in the payload; no entry of the payload has
  the value \<^verbatim>\<open>None\<close>, and an empty domain filter or recency filter has no key either;
  a non-empty domain filter is the value of the key \<^verbatim>\<open>search_domain_filter\<close>, the same
  list in the same order.
\<close>

theorem unset_options_are_omitted:
  "''max_tokens'' \<notin> fst ` set (build_payload (a\<lparr>max_tokens := PNone\<rparr>))
   \<and> ''search_domain_filter'' \<notin> fst ` set (build_payload (a\<lparr>search_domain_filter := PNone\<rparr>))
   \<and> ''search_recency_filter'' \<notin> fst ` set (build_payload (a\<lparr>search_recency_filter := PNone\<rparr>))
   \<and> PNone \<notin> snd ` set (build_payload a)
   \<and> ''search_domain_filter'' \<notin> fst ` set (build_payload (a\<lparr>search_domain_filter := PList []\<rparr>))
   \<and> ''search_recency_filter'' \<notin> fst ` set (build_payload (a\<lparr>search_recency_filter := PStr []\<rparr>))
   \<and> map_of (build_payload (a\<lparr>search_domain_filter := PList (d # ds)\<rparr>)) ''search_domain_filter''
       = Some (PList (d # ds))"
proof -
  have "PNone \<notin> snd ` set (build_payload a)"
    by (auto simp: build_payload_def)
  then show ?thesis
    unfolding key_absent_iff by (simp add: payload_simps)
qed

text \<open>
  Claim C9. The comprehension drops an entry only when its value is \<^verbatim>\<open>None\<close>: the payload
  holds exactly the entries of the dict whose value is not \<^verbatim>\<open>None\<close>, and each of the twelve
  options of the dict literal is in the payload with the value passed unless that value is
  \<^verbatim>\<open>None\<close>. In particular every numeric option that is zero (\<^verbatim>\<open>top_k\<close>,
  \<^verbatim>\<open>presence_penalty\<close>, \<^verbatim>\<open>frequency_penalty\<close>, \<^verbatim>\<open>temperature\<close>, \<^verbatim>\<open>top_p\<close>,
  \<^verbatim>\<open>max_tokens\<close>) and every boolean option that is \<^verbatim>\<open>False\<close> (\<^verbatim>\<open>stream\<close>,
  \<^verbatim>\<open>return_images\<close>, \<^verbatim>\<open>return_related_questions\<close>, \<^verbatim>\<open>return_citations\<close>) is sent as
  it is.
\<close>

theorem none_filter_keeps_zero_and_false:
  "set (build_payload a) = {kv \<in> set (payload_entries a). snd kv \<noteq> PNone}
   \<and> map_of (build_payload a) ''model'' = (if model a = PNone then None else Some (model a))
   \<and> map_of (build_payload a) ''messages'' = (if messages a = PNone then None else Some (messages a))
   \<and> map_of (build_payload a) ''max_tokens''
       = (if max_tokens a = PNone then None else Some (max_tokens a))
   \<and> map_of (build_payload a) ''temperature''
       = (if temperature a = PNone then None else Some (temperature a))
   \<and> map_of (build_payload a) ''top_p'' = (if top_p a = PNone then None else Some (top_p a))
   \<and> map_of (build_payload a) ''return_citations''
       = (if return_citations a = PNone then None else Some (return_citations a))
   \<and> map_of (build_payload a) ''return_images''
       = (if return_images a = PNone then None else Some (return_images a))
   \<and> map_of (build_payload a) ''return_related_questions''
       = (if return_related_questions a = PNone then None else Some (return_related_questions a))
   \<and> map_of (build_payload a) ''top_k'' = (if top_k a = PNone then None else Some (top_k a))
   \<and> map_of (build_payload a) ''stream'' = (if stream a = PNone then None else Some (stream a))
   \<and> map_of (build_payload a) ''presence_penalty''
       = (if presence_penalty a = PNone then None else Some (presence_penalty a))
   \<and> map_of (build_payload a) ''frequency_penalty''
       = (if frequency_penalty a = PNone then None else Some (frequency_penalty a))
   \<and> map_of (build_payload (a\<lparr>top_k := PInt 0\<rparr>)) ''top_k'' = Some (PInt 0)
   \<and> map_of (build_payload (a\<lparr>presence_penalty := PInt 0\<rparr>)) ''presence_penalty'' = Some (PInt 0)
   \<and> map_of (build_payload (a\<lparr>frequency_penalty := PInt 0\<rparr>)) ''frequency_penalty'' = Some (PInt 0)
   \<and> map_of (build_payload (a\<lparr>temperature := PInt 0\<rparr>)) ''temperature'' = Some (PInt 0)
   \<and> map_of (build_payload (a\<lparr>temperature := PFloat (PyFloat ''0.0'')\<rparr>)) ''temperature''
       = Some (PFloat (PyFloat ''0.0''))
   \<and> map_of (build_payload (a\<lparr>top_p := PFloat (PyFloat ''0.0'')\<rparr>)) ''top_p''
       = Some (PFloat (PyFloat ''0.0''))
   \<and> map_of (build_payload (a\<lparr>max_tokens := PInt 0\<rparr>)) ''max_tokens'' = Some (PInt 0)
   \<and> map_of (build_payload (a\<lparr>stream := PBool False\<rparr>)) ''stream'' = Some (PBool False)
   \<and> map_of (build_payload (a\<lparr>return_images := PBool False\<rparr>)) ''return_images''
       = Some (PBool False)
   \<and> map_of (build_payload (a\<lparr>return_related_questions := PBool False\<rparr>))
         ''return_related_questions'' = Some (PBool False)
   \<and> map_of (build_payload (a\<lparr>return_citations := PBool False\<rparr>)) ''return_citations''
       = Some (PBool False)"
proof -
  have kept: "set (build_payload a) = {kv \<in> set (payload_entries a). snd kv \<noteq> PNone}"
    by (auto simp: build_payload_def)
  have each:
    "map_of (build_payload b) ''model'' = (if model b = PNone then None else Some (model b))"
    "map_of (build_payload b) ''messages'' = (if messages b = PNone then None else Some (messages b))"
    "map_of (build_payload b) ''max_tokens'' = (if max_tokens b = PNone then None else Some (max_tokens b))"
    "map_of (build_payload b) ''temperature'' = (if temperature b = PNone then None else Some (temperature b))"
    "map_of (build_payload b) ''top_p'' = (if top_p b = PNone then None else Some (top_p b))"
    "map_of (build_payload b) ''return_citations''
       = (if return_citations b = PNone then None else Some (return_citations b))"
    "map_of (build_payload b) ''return_images''
       = (if return_images b = PNone then None else Some (return_images b))"
    "map_of (build_payload b) ''return_related_questions''
       = (if return_related_questions b = PNone then None else Some (return_related_questions b))"
    "map_of (build_payload b) ''top_k'' = (if top_k b = PNone then None else Some (top_k b))"
    "map_of (build_payload b) ''stream'' = (if stream b = PNone then None else Some (stream b))"
    "map_of (build_payload b) ''presence_penalty''
       = (if presence_penalty b = PNone then None else Some (presence_penalty b))"
    "map_of (build_payload b) ''frequency_penalty''
       = (if frequency_penalty b = PNone then None else Some (frequency_penalty b))"
    for b
    by (simp_all add: payload_simps)
  show ?thesis
    unfolding each by (simp add: kept)
qed

section \<open>Properties of the client\<close>

lemmas fixture_defs = fixed_world_def ok_response_def plain_cli_def

lemmas main_defs = main_def parse_args_def store_true_def store_def main_kwargs_def ask_def
  chat_completion_def try_block_def raise_for_status_def Let_def consume_def
  render_and_display_def report_failure_def optional_line_def PerplexityClient_def
  error_detail_def save_step_def

text \<open>
  Claim C1, as stated, fails in two ways. The handler catches \<^verbatim>\<open>RequestException\<close> only,
  so any other exception raised by the library leaves \<^verbatim>\<open>chat_completion\<close>; and a status
  outside 400..599 is no failure: the answer 304 with a body that decodes is returned as
  that body.
\<close>

theorem other_exception_propagates_counterexample:
  "chat_completion (fixed_world other_failure None) (PerplexityClient ''secret'')
       (bind_args (PList []) []) = Inl (OtherException ''not a RequestException'')
   \<and> chat_completion (fixed_world not_modified None) (PerplexityClient ''secret'')
       (bind_args (PList []) []) = Inr (PDict [])"
  by (simp add: chat_completion_def try_block_def raise_for_status_def fixed_world_def
      other_failure_def not_modified_def Let_def)

text \<open>
  Claim C1, amended. For every payload and API key, \<^verbatim>\<open>chat_completion\<close> turns every
  \<^verbatim>\<open>RequestException\<close> of its \<^verbatim>\<open>try\<close> block into a returned dict: \<^verbatim>\<open>error\<close> is the
  message, \<^verbatim>\<open>status_code\<close> is the status of the exception's response or \<^verbatim>\<open>None\<close>, and
  \<^verbatim>\<open>response_text\<close> is there exactly when the exception carries a response. That covers
  an exception of \<^verbatim>\<open>requests.post\<close> (connection error, timeout), a status from 400 to 599
  (the dict then carries that status and the text of the response) and an exception of
  \<^verbatim>\<open>json()\<close>. A response with any other status whose body decodes is returned as the
  decoded body, and an exception of another class leaves the method.
\<close>

theorem request_exception_becomes_failure_value:
  assumes "post w (base_url self @ ''/chat/completions'') (headers self) (PDict (build_payload a)) = t"
  shows
  "(t = PostRaised (RequestException msg resp) \<longrightarrow>
      chat_completion w self a =
        Inr (PDict (case resp of
                      None \<Rightarrow> [(''error'', PStr msg), (''status_code'', PNone)]
                    | Some r' \<Rightarrow> [(''error'', PStr msg), (''status_code'', PInt (status_code r')),
                                  (''response_text'', PStr (body_text r'))])))
   \<and> (t = PostReturned r decoded \<and> 400 \<le> status_code r \<and> status_code r < 600 \<longrightarrow>
      chat_completion w self a =
        Inr (PDict [(''error'', PStr (http_error_msg r)), (''status_code'', PInt (status_code r)),
                    (''response_text'', PStr (body_text r))]))
   \<and> (t = PostReturned r (Inl (RequestException msg resp))
        \<and> \<not> (400 \<le> status_code r \<and> status_code r < 600) \<longrightarrow>
      chat_completion w self a =
        Inr (PDict (case resp of
                      None \<Rightarrow> [(''error'', PStr msg), (''status_code'', PNone)]
                    | Some r' \<Rightarrow> [(''error'', PStr msg), (''status_code'', PInt (status_code r')),
                                  (''response_text'', PStr (body_text r'))])))
   \<and> (t = PostReturned r (Inr v) \<and> \<not> (400 \<le> status_code r \<and> status_code r < 600) \<longrightarrow>
      chat_completion w self a = Inr v)
   \<and> (t = PostRaised e \<and> \<not> is_request_exception e \<longrightarrow> chat_completion w self a = Inl e)
   \<and> (t = PostReturned r (Inl e) \<and> \<not> (400 \<le> status_code r \<and> status_code r < 600)
        \<and> \<not> is_request_exception e \<longrightarrow>
      chat_completion w self a = Inl e)"
  using assms
  by (auto simp: chat_completion_def Let_def error_detail_def try_block_def raise_for_status_def
      split: option.split)

text \<open>The witness of the amended C1: a refused connection, the answer 401, a decoded body
  and an exception of another class.\<close>

theorem request_exception_becomes_failure_value_witness:
  "chat_completion (fixed_world unreachable None) (PerplexityClient ''secret'') (bind_args (PList []) [])
     = Inr (PDict [(''error'', PStr ''Connection refused''), (''status_code'', PNone)])
   \<and> chat_completion (fixed_world unauthorized None) (PerplexityClient ''secret'') (bind_args (PList []) [])
     = Inr (PDict [(''error'',
                    PStr ''401 Client Error: Unauthorized for url: https://api.perplexity.ai/chat/completions''),
                   (''status_code'', PInt 401), (''response_text'', PStr ''denied'')])
   \<and> chat_completion (fixed_world (ok_response hello_body) None) (PerplexityClient ''secret'')
        (bind_args (PList []) []) = Inr hello_body
   \<and> chat_completion (fixed_world other_failure None) (PerplexityClient ''secret'')
        (bind_args (PList []) []) = Inl (OtherException ''not a RequestException'')"
proof -
  let ?self = "PerplexityClient ''secret''"
  let ?a = "bind_args (PList []) []"
  let ?ok = "\<lparr>status_code = 200, body_text = [], reason = ''OK'',
              url = ''https://api.perplexity.ai/chat/completions''\<rparr>"
  let ?unused = "Inl (OtherException ''not reached'') :: exn + pyval"
  let ?other = "OtherException ''not a RequestException''"
  have p1: "post (fixed_world unreachable None) (base_url ?self @ ''/chat/completions'') (headers ?self)
              (PDict (build_payload ?a)) = unreachable"
    and p2: "post (fixed_world unauthorized None) (base_url ?self @ ''/chat/completions'') (headers ?self)
              (PDict (build_payload ?a)) = unauthorized"
    and p3: "post (fixed_world (ok_response hello_body) None) (base_url ?self @ ''/chat/completions'')
              (headers ?self) (PDict (build_payload ?a)) = ok_response hello_body"
    and p4: "post (fixed_world other_failure None) (base_url ?self @ ''/chat/completions'') (headers ?self)
              (PDict (build_payload ?a)) = other_failure"
    by (simp_all add: fixed_world_def)
  from request_exception_becomes_failure_value
         [OF p1, of "''Connection refused''" None denied ?unused hello_body ?other]
  have r1: "chat_completion (fixed_world unreachable None) ?self ?a
              = Inr (PDict [(''error'', PStr ''Connection refused''), (''status_code'', PNone)])"
    by (simp add: unreachable_def)
  from request_exception_becomes_failure_value
         [OF p2, of "[]" None denied ?unused hello_body ?other]
  have r2: "chat_completion (fixed_world unauthorized None) ?self ?a
     = Inr (PDict [(''error'',
                    PStr ''401 Client Error: Unauthorized for url: https://api.perplexity.ai/chat/completions''),
                   (''status_code'', PInt 401), (''response_text'', PStr ''denied'')])"
    by (simp add: unauthorized_def denied_def http_error_msg_def str_int_def str_nat.simps digit_char_def)
  from request_exception_becomes_failure_value
         [OF p3, of "[]" None ?ok ?unused hello_body ?other]
  have r3: "chat_completion (fixed_world (ok_response hello_body) None) ?self ?a = Inr hello_body"
    by (simp add: ok_response_def)
  from request_exception_becomes_failure_value
         [OF p4, of "[]" None denied ?unused hello_body ?other]
  have r4: "chat_completion (fixed_world other_failure None) ?self ?a
              = Inl (OtherException ''not a RequestException'')"
    by (simp add: other_failure_def)
  from r1 r2 r3 r4 show ?thesis by simp
qed

section \<open>Properties of the rendering\<close>

lemmas render_defs =
  prepare_output_def text_output_def citations_part_def related_part_def join_parts_def
  and_then_def py_str_def list_index_def

lemmas str_int_simps = str_int_def str_nat.simps digit_char_def

text \<open>
  Claim C4. In text mode with the citations shown, the body
  \<^verbatim>\<open>{"choices":[{"message":{"content":"hello"}}], "citations":["a","b"]}\<close> is rendered
  as the content, an empty line, the header \<^verbatim>\<open>Citations:\<close> and one line per citation,
  numbered from 1.
\<close>

theorem hello_body_rendering:
  "prepare_output w (args\<lparr>args_json := False, args_citations := True\<rparr>) hello_body
     = ([], Value ''hello\<newline>\<newline>Citations:\<newline>1. a\<newline>2. b'')"
  by (cases "args_related_questions args")
     (simp_all add: hello_body_def render_defs str_int_simps)

text \<open>In JSON mode the output is what \<^verbatim>\<open>json.dumps\<close> returns for the response; the
  indentation is 2 whenever \<^verbatim>\<open>args.pretty\<close> holds, and it always holds.\<close>

lemma json_mode_output:
  "json_flag c \<Longrightarrow>
   prepare_output w (parse_args c) response = ([], Value (json_dumps w (Some 2) response))"
  by (simp add: prepare_output_def parse_args_def store_true_def)

lemma citations_always_on: "args_citations (parse_args c)"
  by (simp add: parse_args_def store_true_def)

lemma kwargs_return_citations:
  "map_of (main_kwargs args) ''return_citations''
     = Some (PBool (args_citations args \<and> \<not> args_no_citations args))"
  by (simp add: main_kwargs_def Let_def map_of_dict_set split: option.split)

lemma bound_return_citations:
  "return_citations (bind_args msgs kwargs)
     = (case map_of kwargs ''return_citations'' of Some v \<Rightarrow> v | None \<Rightarrow> PBool True)"
  by (simp add: bind_args_def kwarg_def)

lemma payload_return_citations:
  "map_of (build_payload a) ''return_citations''
     = (if return_citations a = PNone then None else Some (return_citations a))"
  by (simp add: payload_simps)

lemma sent_return_citations:
  "map_of (build_payload (bind_args msgs (main_kwargs (parse_args c)))) ''return_citations''
     = Some (PBool (\<not> no_citations_flag c))"
  by (simp add: payload_return_citations bound_return_citations kwargs_return_citations
      parse_args_def store_true_def)


lemma citations_part_list:
  assumes "args_citations args" and "map_of body ''citations'' = Some (PList (x # xs))"
  shows "citations_part w args (PDict body)
           = Inr (''\<newline>Citations:'' #
                  map (\<lambda>ix. str_int (int (fst ix)) @ ''. '' @ py_str w (snd ix)) (enumerate 1 (x # xs)))"
  using assms by (simp add: citations_part_def and_then_def)

lemma related_part_flag:
  "related_part w (parse_args (c\<lparr>no_citations_flag := given\<rparr>)) response
     = related_part w (parse_args c) response"
  by (simp add: related_part_def parse_args_def)

text \<open>
  Claim C10. The flag \<^verbatim>\<open>--no-citations\<close> reaches the request only: whether or not it is
  given, \<^verbatim>\<open>args.citations\<close> is true, the payload carries \<^verbatim>\<open>return_citations\<close> as the
  negation of the flag, and in text mode a response with a content and a non-empty list of
  citations is rendered with the \<^verbatim>\<open>Citations:\<close> section (followed by the lines \<open>rs\<close>
  of the related questions, when that part of the rendering raises nothing).
\<close>

theorem no_citations_flag_changes_request_only:
  assumes text_mode: "\<not> json_flag c"
    and choices: "map_of body ''choices'' = Some (PList (PDict choice # rest))"
    and message: "map_of choice ''message'' = Some (PDict message)"
    and content: "map_of message ''content'' = Some (PStr content)"
    and citations: "map_of body ''citations'' = Some (PList (x # xs))"
    and related: "related_part w (parse_args c) (PDict body) = Inr rs"
  shows "args_citations (parse_args (c\<lparr>no_citations_flag := given\<rparr>))
       \<and> map_of (build_payload (bind_args msgs
                    (main_kwargs (parse_args (c\<lparr>no_citations_flag := given\<rparr>))))) ''return_citations''
           = Some (PBool (\<not> given))
       \<and> prepare_output w (parse_args (c\<lparr>no_citations_flag := given\<rparr>)) (PDict body)
           = ([], Value (join ''\<newline>''
                (content # ''\<newline>Citations:'' #
                 map (\<lambda>ix. str_int (int (fst ix)) @ ''. '' @ py_str w (snd ix)) (enumerate 1 (x # xs))
                 @ rs)))"
proof -
  let ?args = "parse_args (c\<lparr>no_citations_flag := given\<rparr>)"
  have on: "args_citations ?args" by (rule citations_always_on)
  have sent: "map_of (build_payload (bind_args msgs (main_kwargs ?args))) ''return_citations''
                = Some (PBool (\<not> given))"
    using sent_return_citations [of msgs "c\<lparr>no_citations_flag := given\<rparr>"] by simp
  have nj: "\<not> args_json ?args"
    using text_mode by (simp add: parse_args_def store_true_def)
  have cs: "citations_part w ?args (PDict body)
              = Inr (''\<newline>Citations:'' #
                  map (\<lambda>ix. str_int (int (fst ix)) @ ''. '' @ py_str w (snd ix)) (enumerate 1 (x # xs)))"
    using on citations by (rule citations_part_list)
  have rel: "related_part w ?args (PDict body) = Inr rs"
    using related by (simp add: related_part_flag)
  have out: "text_output w ?args (PDict body)
               = Inr (join ''\<newline>''
                (content # ''\<newline>Citations:'' #
                 map (\<lambda>ix. str_int (int (fst ix)) @ ''. '' @ py_str w (snd ix)) (enumerate 1 (x # xs))
                 @ rs))"
    unfolding text_output_def cs rel
    by (simp add: and_then_def choices message content list_index_def join_parts_def)
  show ?thesis
    using on sent nj out by (simp add: prepare_output_def)
qed

text \<open>The witness of C10: the body of C4, with \<^verbatim>\<open>--no-citations\<close> given.\<close>

theorem no_citations_flag_changes_request_only_witness:
  "\<not> json_flag plain_cli
   \<and> related_part (fixed_world (ok_response hello_body) None) (parse_args plain_cli) hello_body = Inr []
   \<and> map_of (build_payload (bind_args (PList [])
                (main_kwargs (parse_args (plain_cli\<lparr>no_citations_flag := True\<rparr>))))) ''return_citations''
       = Some (PBool False)
   \<and> prepare_output (fixed_world (ok_response hello_body) None)
         (parse_args (plain_cli\<lparr>no_citations_flag := True\<rparr>)) hello_body
       = ([], Value ''hello\<newline>\<newline>Citations:\<newline>1. a\<newline>2. b'')"
proof -
  let ?w = "fixed_world (ok_response hello_body) None"
  let ?body = "[(''choices'', PList [PDict [(''message'', PDict [(''content'', PStr ''hello'')])]]),
            (''citations'', PList [PStr ''a'', PStr ''b''])]"
  have b: "hello_body = PDict ?body" by (simp add: hello_body_def)
  have h1: "\<not> json_flag plain_cli" by (simp add: plain_cli_def)
  have h2: "map_of ?body ''choices'' = Some (PList (PDict [(''message'', PDict [(''content'', PStr ''hello'')])] # []))"
    by simp
  have h3: "map_of [(''message'', PDict [(''content'', PStr ''hello'')])] ''message''
              = Some (PDict [(''content'', PStr ''hello'')])" by simp
  have h4: "map_of [(''content'', PStr ''hello'')] ''content'' = Some (PStr ''hello'')" by simp
  have h5: "map_of ?body ''citations'' = Some (PList (PStr ''a'' # [PStr ''b'']))" by simp
  have h6: "related_part ?w (parse_args plain_cli) (PDict ?body) = Inr []"
    by (simp add: related_part_def parse_args_def plain_cli_def store_true_def)
  from no_citations_flag_changes_request_only [OF h1 h2 h3 h4 h5 h6, where msgs = "PList []" and given = True]
    h1 h6
  show ?thesis
    by (simp add: b py_str_def str_int_simps)
qed

section \<open>Properties of a run\<close>

lemma main_with_key:
  assumes "args_api_key (parse_args c) = Some key" and "key \<noteq> []"
  shows "main w c =
           (case ask w (PerplexityClient key) (question c) (main_kwargs (parse_args c)) of
              Inl e \<Rightarrow> ([], Raised e)
            | Inr response \<Rightarrow> consume w (parse_args c) response)"
proof -
  have q: "args_question (parse_args c) = question c"
    by (simp add: parse_args_def)
  show ?thesis
    using assms by (simp add: main_def Let_def q)
qed

lemma consume_dict:
  "consume w args (PDict body) =
     (if ''error'' \<in> fst ` set body then report_failure w (PDict body)
      else render_and_display w args (PDict body))"
  by (simp add: consume_def)

lemma text_mode: "\<not> json_flag c \<Longrightarrow> \<not> args_json (parse_args c)"
  by (simp add: parse_args_def store_true_def)

lemma missing_choices:
  "map_of body ''choices'' = None \<Longrightarrow> text_output w args (PDict body) = Inl (KeyError (PStr ''choices''))"
  by (simp add: text_output_def and_then_def)

lemma empty_choices:
  "map_of body ''choices'' = Some (PList []) \<Longrightarrow>
   text_output w args (PDict body) = Inl (IndexError ''list index out of range'')"
  by (simp add: text_output_def and_then_def list_index_def)

lemma missing_message:
  "map_of body ''choices'' = Some (PList (PDict choice # rest)) \<Longrightarrow> map_of choice ''message'' = None \<Longrightarrow>
   text_output w args (PDict body) = Inl (KeyError (PStr ''message''))"
  by (simp add: text_output_def and_then_def list_index_def)

lemma missing_content:
  "map_of body ''choices'' = Some (PList (PDict choice # rest)) \<Longrightarrow>
   map_of choice ''message'' = Some (PDict message) \<Longrightarrow> map_of message ''content'' = None \<Longrightarrow>
   text_output w args (PDict body) = Inl (KeyError (PStr ''content''))"
  by (simp add: text_output_def and_then_def list_index_def)

lemma caught_report:
  assumes "text_output w args response = Inl e" and "caught_in_text_mode e" and "\<not> args_json args"
  shows "render_and_display w args response =
           ([Stderr (''Error parsing response: '' @ exn_str w e),
             Stderr (json_dumps w (Some 2) response)], SysExit 1)"
  using assms by (simp add: render_and_display_def prepare_output_def)

text \<open>
  In text mode, when the response is a JSON object without the key \<^verbatim>\<open>error\<close> that lacks
  \<^verbatim>\<open>choices\<close>, or whose \<^verbatim>\<open>choices\<close> is the empty list, or whose first choice is an
  object without \<^verbatim>\<open>message\<close> or with a \<^verbatim>\<open>message\<close> object without \<^verbatim>\<open>content\<close>, the
  subscript raises \<^verbatim>\<open>KeyError\<close> or \<^verbatim>\<open>IndexError\<close> and the handler reports it: nothing goes
  to the output stream, the error and the whole body as indented JSON go to the error stream,
  and the exit status is 1.
\<close>

lemma key_and_index_errors_are_reported:
  assumes key: "args_api_key (parse_args c) = Some key" "key \<noteq> []"
    and answer: "ask w (PerplexityClient key) (question c) (main_kwargs (parse_args c)) = Inr (PDict body)"
    and success: "''error'' \<notin> fst ` set body"
    and no_json: "\<not> json_flag c"
    and shape:
      "map_of body ''choices'' = None
       \<or> map_of body ''choices'' = Some (PList [])
       \<or> (\<exists>choice rest. map_of body ''choices'' = Some (PList (PDict choice # rest))
            \<and> (map_of choice ''message'' = None
                \<or> (\<exists>message. map_of choice ''message'' = Some (PDict message)
                     \<and> map_of message ''content'' = None)))"
  shows "\<exists>e. (e = KeyError (PStr ''choices'') \<or> e = IndexError ''list index out of range''
              \<or> e = KeyError (PStr ''message'') \<or> e = KeyError (PStr ''content''))
           \<and> main w c = ([Stderr (''Error parsing response: '' @ exn_str w e),
                          Stderr (json_dumps w (Some 2) (PDict body))], SysExit 1)"
proof -
  let ?args = "parse_args c"
  have m: "main w c = render_and_display w ?args (PDict body)"
    using success by (simp add: main_with_key [OF key] answer consume_dict)
  have nj: "\<not> args_json ?args" using no_json by (rule text_mode)
  from shape obtain e where e: "text_output w ?args (PDict body) = Inl e"
    and kind: "e = KeyError (PStr ''choices'') \<or> e = IndexError ''list index out of range''
              \<or> e = KeyError (PStr ''message'') \<or> e = KeyError (PStr ''content'')"
    using missing_choices [of body w ?args] empty_choices [of body w ?args]
      missing_message [of body _ _ w ?args] missing_content [of body _ _ _ w ?args]
    by blast
  from kind have "caught_in_text_mode e" by auto
  from caught_report [OF e this nj] m kind show ?thesis by auto
qed

text \<open>
  Claim C3 (the code departs from it). The body \<^verbatim>\<open>{"choices":[{"message":null}]}\<close> lacks
  \<^verbatim>\<open>message.content\<close>, but the subscript of \<^verbatim>\<open>None\<close> raises a \<^verbatim>\<open>TypeError\<close>, which the
  handler for \<^verbatim>\<open>KeyError\<close> and \<^verbatim>\<open>IndexError\<close> does not catch: the run prints neither the
  error message nor the body and ends with the uncaught exception.
\<close>

theorem null_message_escapes_handler:
  "main (fixed_world (ok_response null_message_body) None) plain_cli
     = ([], Raised (TypeError ([CHR 0x27] @ ''NoneType'' @ [CHR 0x27] @ '' object is not subscriptable'')))"
  by (simp add: fixture_defs main_defs render_defs null_message_body_def)

text \<open>
  Claim C6 (the code departs from it). The handler of the text mode catches \<^verbatim>\<open>KeyError\<close>
  and \<^verbatim>\<open>IndexError\<close> only. For the body \<^verbatim>\<open>{"choices":[{"message":{"content":null}}]}\<close>
  the join of the output parts raises a \<^verbatim>\<open>TypeError\<close>, which no handler catches: the run
  prints neither message and ends with the uncaught exception.
\<close>

theorem null_content_escapes_handler:
  "main (fixed_world (ok_response null_content_body) None) plain_cli
     = ([], Raised (TypeError ''sequence item 0: expected str instance, NoneType found''))"
  by (simp add: fixture_defs main_defs render_defs null_content_body_def)







section \<open>Properties of the save step\<close>

text \<open>Neither the request nor the rendering reads the file system.\<close>

lemma py_repr_ignores_write: "py_repr (w\<lparr>write_file := writer\<rparr>) v = py_repr w v"
  by (induction w v rule: py_repr.induct) (simp_all cong: map_cong)

lemma py_str_ignores_write: "py_str (w\<lparr>write_file := writer\<rparr>) v = py_str w v"
  unfolding py_str_def py_repr_ignores_write by (rule refl)

lemma exn_str_ignores_write: "exn_str (w\<lparr>write_file := writer\<rparr>) e = exn_str w e"
  by (cases e) (simp_all add: py_repr_ignores_write)

lemma ask_ignores_write: "ask (w\<lparr>write_file := writer\<rparr>) self q kw = ask w self q kw"
  by (simp add: ask_def chat_completion_def Let_def exn_str_ignores_write cong: if_cong sum.case_cong)

lemma prepare_output_ignores_write:
  "prepare_output (w\<lparr>write_file := writer\<rparr>) args response = prepare_output w args response"
  by (simp add: prepare_output_def text_output_def citations_part_def related_part_def
      py_str_ignores_write exn_str_ignores_write cong: if_cong sum.case_cong)

text \<open>
  Claim C8. When the output was rendered and a destination is given, the output is printed
  first and the file is written after it; whatever the write does, the output stream holds
  the output alone and the exit status is 0: a write that raises adds one line
  \<^verbatim>\<open>Error saving file:\<close> to the error stream and nothing else.
\<close>

theorem save_failure_only_warns:
  assumes key: "args_api_key (parse_args c) = Some key" "key \<noteq> []"
    and answer: "ask w (PerplexityClient key) (question c) (main_kwargs (parse_args c)) = Inr response"
    and success: "py_contains response ''error'' = Inr False"
    and rendered: "prepare_output w (parse_args c) response = ([], Value output)"
    and dest: "save_option c = Some path" "path \<noteq> []"
  shows "main (w\<lparr>write_file := writer\<rparr>) c =
           ([Stdout output] @
            (case writer path output of
               None \<Rightarrow> [FileWritten path output, Stderr (''\<newline>Response saved to: '' @ path)]
             | Some e \<Rightarrow> [Stderr (''Error saving file: '' @ exn_str w e)]),
            Value ())
         \<and> stdout_of (fst (main (w\<lparr>write_file := writer\<rparr>) c)) = [output]
         \<and> exit_status (snd (main (w\<lparr>write_file := writer\<rparr>) c)) = 0"
proof -
  let ?w = "w\<lparr>write_file := writer\<rparr>"
  let ?args = "parse_args c"
  have sv: "args_save ?args = Some path" using dest by (simp add: parse_args_def)
  have m: "main ?w c = consume ?w ?args response"
    by (simp add: main_with_key [OF key] ask_ignores_write answer)
  have r: "consume ?w ?args response =
             ([Stdout output] @ save_step ?w ?args output, Value ())"
    using success rendered
    by (simp add: consume_def render_and_display_def prepare_output_ignores_write)
  have s: "save_step ?w ?args output =
             (case writer path output of
               None \<Rightarrow> [FileWritten path output, Stderr (''\<newline>Response saved to: '' @ path)]
             | Some e \<Rightarrow> [Stderr (''Error saving file: '' @ exn_str w e)])"
    using dest sv by (simp add: save_step_def exn_str_ignores_write split: option.split)
  have full: "main ?w c = ([Stdout output] @
            (case writer path output of
               None \<Rightarrow> [FileWritten path output, Stderr (''\<newline>Response saved to: '' @ path)]
             | Some e \<Rightarrow> [Stderr (''Error saving file: '' @ exn_str w e)]),
            Value ())"
    by (simp add: m r s)
  show ?thesis
    unfolding full by (simp add: stdout_of_def split: option.split)
qed

text \<open>The witness of C8: the same run with a write that fails and with a write that
  succeeds.\<close>

theorem save_failure_only_warns_witness:
  "args_api_key (parse_args saving_cli) = Some ''secret''
   \<and> save_option saving_cli = Some ''answer.txt''
   \<and> prepare_output (fixed_world (ok_response hello_body) None) (parse_args saving_cli) hello_body
       = ([], Value ''hello\<newline>\<newline>Citations:\<newline>1. a\<newline>2. b'')
   \<and> main ((fixed_world (ok_response hello_body) None)
             \<lparr>write_file := (\<lambda>path content. Some (OtherException ''Permission denied''))\<rparr>) saving_cli
       = ([Stdout ''hello\<newline>\<newline>Citations:\<newline>1. a\<newline>2. b'',
           Stderr ''Error saving file: Permission denied''], Value ())
   \<and> main ((fixed_world (ok_response hello_body) None)
             \<lparr>write_file := (\<lambda>path content. None)\<rparr>) saving_cli
       = ([Stdout ''hello\<newline>\<newline>Citations:\<newline>1. a\<newline>2. b'',
           FileWritten ''answer.txt'' ''hello\<newline>\<newline>Citations:\<newline>1. a\<newline>2. b'',
           Stderr ''\<newline>Response saved to: answer.txt''], Value ())"
proof -
  let ?w = "fixed_world (ok_response hello_body) None"
  let ?out = "''hello\<newline>\<newline>Citations:\<newline>1. a\<newline>2. b''"
  have k: "args_api_key (parse_args saving_cli) = Some ''secret''"
    by (simp add: parse_args_def plain_cli_def saving_cli_def)
  have ne: "''secret'' \<noteq> []" by simp
  have a: "ask ?w (PerplexityClient ''secret'') (question saving_cli) (main_kwargs (parse_args saving_cli))
             = Inr hello_body"
    by (simp add: ask_def chat_completion_def try_block_def raise_for_status_def fixed_world_def
        ok_response_def Let_def)
  have s: "py_contains hello_body ''error'' = Inr False"
    by (simp add: hello_body_def)
  have r: "prepare_output ?w (parse_args saving_cli) hello_body = ([], Value ?out)"
    by (simp add: render_defs hello_body_def parse_args_def store_true_def saving_cli_def plain_cli_def
        str_int_simps)
  have d: "save_option saving_cli = Some ''answer.txt''"
    by (simp add: saving_cli_def)
  have dn: "''answer.txt'' \<noteq> []" by simp
  from save_failure_only_warns [OF k ne a s r d dn, of "\<lambda>path content. Some (OtherException ''Permission denied'')"]
       save_failure_only_warns [OF k ne a s r d dn, of "\<lambda>path content. None"]
       k d r
  show ?thesis by simp
qed

end
